theory Spec2Isabelle
  imports Main
begin

section \<open>The relational store\<close>

text \<open>
  The server keeps all of its state in five MySQL tables, declared by \<open>createTables\<close>.
  A table is the list of its rows, a row is a record with one field per declared column
  (the two timestamp columns are left out: no handler below reads them except to order an
  answer, and the order of an answer is not modelled). Field names carry the alias the
  queries use for the table (\<open>j\<close>, \<open>f\<close>, \<open>a\<close>, \<open>sc\<close>), since HOL record
  fields share one name space.

  A handler is a function from the database (and the request) to the status code of the
  answer and the database it leaves. Ids are natural numbers, and a route parameter
  \<open>:id\<close> is the number it denotes. Texts are compared by equality. A statement is
  rejected for the reasons the declared schema gives: a column that is not declared, a
  unique key, a foreign key, a \<open>NOT NULL\<close> column; values are taken to fit their
  columns. What a statement throws is caught by the handler's \<open>catch\<close> block.

  A JSON column holds a JSON value (numbers are integers). A statement that binds the text
  \<open>JSON.stringify\<close> gives for a value stores that value, and the driver hands a JSON
  column back as the value it has parsed from it, not as a text: \<open>src/db.js\<close> creates
  the pool of \<open>mysql2\<close> with neither \<open>jsonStrings\<close> nor \<open>typeCast\<close>.
\<close>

datatype json =
    JNull
  | JBool bool
  | JNum int
  | JStr string
  | JArr "json list"
  | JObj "(string \<times> json) list"

record admin_user =
  u_id :: nat
  u_uuid :: string
  u_full_name :: string
  u_email :: string
  u_password :: string
  u_role :: string

record job_post =
  j_id :: nat
  j_uuid :: string
  j_job_title :: string
  j_slug :: string
  j_details :: json
  j_description :: json
  j_created_by :: nat

record job_application_form =
  f_id :: nat
  f_uuid :: string
  f_job_post_id :: nat
  f_basicFormSchema :: json
  f_applicationFormSchema :: json

text \<open>
  An entry of the \<open>basicFormData\<close> array a client submits. The handler reads three
  properties of an entry, \<open>label\<close>, \<open>name\<close> and \<open>value\<close>, and compares them with
  strings; \<open>None\<close> stands for a property that is absent. Reading a property of \<open>null\<close>
  throws, reading one of a number, a boolean or a string gives \<open>undefined\<close>.
  \<open>Field_entry l n v\<close> is an object with label \<open>l\<close>, name \<open>n\<close> and value \<open>v\<close>,
  each a text when present, as a form sends them.
\<close>

datatype form_entry =
    Null_entry
  | Scalar_entry
  | Field_entry "string option" "string option" "string option"

record applicant =
  a_id :: nat
  a_uuid :: string
  a_job_id :: nat
  a_basicFormData :: "form_entry list"
  a_applicationFormData :: json
  a_resume_path :: "string option"

record shortlisted_candidate =
  sc_id :: nat
  sc_job_post_id :: nat
  sc_applicant_id :: nat
  sc_full_name :: string
  sc_email :: string
  sc_phone :: "string option"
  sc_rating :: int
  sc_status :: string
  sc_stage :: string
  sc_note :: "string option"

record database =
  admin_users :: "admin_user list"
  job_posts :: "job_post list"
  job_application_forms :: "job_application_form list"
  applicants :: "applicant list"
  shortlisted_candidates :: "shortlisted_candidate list"
  next_admin_user_id :: nat
  next_applicant_id :: nat
  next_shortlisted_id :: nat

text \<open>The reasons for which the engine rejects a statement; each is caught by the handler.\<close>

datatype sql_error =
    Unknown_column string
  | Duplicate_entry string
  | Foreign_key string
  | Not_null string
  | Rejected_parameter
  | Engine_failure

text \<open>What the JavaScript of a handler throws by itself.\<close>

datatype js_error = SyntaxError | TypeError

text \<open>The column names of \<open>applicants\<close>, as \<open>createTables\<close> declares them.\<close>

definition applicants_columns :: "string list" where
  "applicants_columns =
     [''id'', ''uuid'', ''job_id'', ''basicFormData'', ''applicationFormData'',
      ''resume_path'', ''created_at'', ''updated_at'']"

text \<open>
  A statement that names a column its table does not have is rejected before any row is
  looked at (MySQL error 1054), whatever the table holds.
\<close>

definition check_columns :: "string list \<Rightarrow> string list \<Rightarrow> sql_error + unit" where
  "check_columns declared named =
     (case filter (\<lambda>c. c \<notin> set declared) named of
        [] \<Rightarrow> Inr ()
      | c # _ \<Rightarrow> Inl (Unknown_column c))"

text \<open>Two databases hold the same rows: the auto-increment counters may differ.\<close>

definition same_rows :: "database \<Rightarrow> database \<Rightarrow> bool" where
  "same_rows d e \<longleftrightarrow>
     admin_users d = admin_users e \<and> job_posts d = job_posts e \<and>
     job_application_forms d = job_application_forms e \<and>
     applicants d = applicants e \<and> shortlisted_candidates d = shortlisted_candidates e"

text \<open>
  \<open>connection.rollback()\<close>: the rows are those at \<open>beginTransaction\<close>; InnoDB does not
  give back the auto-increment values a rolled-back statement has taken.
\<close>

definition rollback :: "database \<Rightarrow> database \<Rightarrow> database" where
  "rollback at_begin now =
     at_begin\<lparr>next_admin_user_id := next_admin_user_id now,
              next_applicant_id := next_applicant_id now,
              next_shortlisted_id := next_shortlisted_id now\<rparr>"

section \<open>POST /signup\<close>

text \<open>
  The password is tested against
  \<^verbatim>\<open>/^(?=.*[a-z])(?=.*[A-Z])(?=.*\d)(?=.*[!@#$%^&*])[A-Za-z\d!@#$%^&*]{8,}$/\<close>.
  A lookahead \<open>(?=.*C)\<close> at the start of the input holds when some character of class
  \<open>C\<close> is preceded by characters that \<open>.\<close> matches, that is by no line terminator.
  After the four lookaheads the whole input, from \<open>^\<close> to \<open>$\<close>, is at least eight
  characters of the class \<open>[A-Za-z\d!@#$%^&*]\<close>.
\<close>

definition lower :: "char \<Rightarrow> bool" where
  "lower c \<longleftrightarrow> c \<in> set ''abcdefghijklmnopqrstuvwxyz''"

definition upper :: "char \<Rightarrow> bool" where
  "upper c \<longleftrightarrow> c \<in> set ''ABCDEFGHIJKLMNOPQRSTUVWXYZ''"

definition digit :: "char \<Rightarrow> bool" where
  "digit c \<longleftrightarrow> c \<in> set ''0123456789''"

definition symbol :: "char \<Rightarrow> bool" where
  "symbol c \<longleftrightarrow> c \<in> set ''!@#$%^&*''"

definition allowed :: "char \<Rightarrow> bool" where
  "allowed c \<longleftrightarrow> upper c \<or> lower c \<or> digit c \<or> symbol c"

definition line_terminator :: "char \<Rightarrow> bool" where
  "line_terminator c \<longleftrightarrow> c = CHR 0x0A \<or> c = CHR 0x0D"

fun lookahead :: "(char \<Rightarrow> bool) \<Rightarrow> string \<Rightarrow> bool" where
  "lookahead C [] = False"
| "lookahead C (c # cs) = (C c \<or> (\<not> line_terminator c \<and> lookahead C cs))"

definition passwordRegex_test :: "string \<Rightarrow> bool" where
  "passwordRegex_test password \<longleftrightarrow>
     lookahead lower password \<and> lookahead upper password \<and>
     lookahead digit password \<and> lookahead symbol password \<and>
     8 \<le> length password \<and> list_all allowed password"

text \<open>
  The handler. The password is the text the regular expression is run on (for a body
  without one, the text \<open>undefined\<close>). \<open>hash\<close> is \<open>bcrypt.hash(_, 10)\<close> and
  \<open>uuid\<close> the value \<open>uuidv4()\<close> returns for this request. The answer is the status
  code and the text of the \<open>error\<close> or \<open>message\<close> member of the body. The insert
  leaves \<open>role\<close> to its default and is rejected when the uuid or the email is taken
  (both columns are declared \<open>UNIQUE\<close>).
\<close>

definition insert_admin_user ::
  "string \<Rightarrow> string \<Rightarrow> string \<Rightarrow> string \<Rightarrow> database \<Rightarrow> sql_error + database" where
  "insert_admin_user uuid full_name email hashed db =
     (if uuid \<in> u_uuid ` set (admin_users db) then Inl (Duplicate_entry ''uuid'')
      else if email \<in> u_email ` set (admin_users db) then Inl (Duplicate_entry ''email'')
      else Inr (db\<lparr>admin_users := admin_users db @
                      [\<lparr>u_id = next_admin_user_id db, u_uuid = uuid, u_full_name = full_name,
                        u_email = email, u_password = hashed, u_role = ''admin''\<rparr>],
                    next_admin_user_id := Suc (next_admin_user_id db)\<rparr>))"

definition signup ::
  "(string \<Rightarrow> string) \<Rightarrow> string \<Rightarrow> database \<Rightarrow> string \<Rightarrow> string \<Rightarrow> string
     \<Rightarrow> (nat \<times> string) \<times> database" where
  "signup hash uuid db full_name email password =
     (if \<not> passwordRegex_test password
      then ((400, ''Password must meet complexity rules''), db)
      else if filter (\<lambda>u. u_email u = email) (admin_users db) \<noteq> []
      then ((400, ''Admin already exists''), db)
      else case insert_admin_user uuid full_name email (hash password) db of
             Inl err \<Rightarrow> ((500, ''Internal server error''), db)
           | Inr db' \<Rightarrow> ((200, ''Admin registered successfully''), db'))"

text \<open>
  The complexity policy in the words of the specification: at least eight characters, with
  a lowercase letter, an uppercase letter, a digit and a symbol of \<open>!@#$%^&*\<close> among them.
\<close>

definition stated_policy :: "string \<Rightarrow> bool" where
  "stated_policy password \<longleftrightarrow>
     8 \<le> length password \<and> list_ex lower password \<and> list_ex upper password \<and>
     list_ex digit password \<and> list_ex symbol password"

section \<open>PATCH /jobs/:id and DELETE /jobs/:id\<close>

text \<open>
  The members of the body of an update. For \<open>title\<close> and \<open>slug\<close>, which the handler
  passes through \<open>??\<close>, \<open>None\<close> is a member that is absent or \<open>null\<close>. For the
  others, which it tests for truthiness, \<open>None\<close> is an absent member and \<open>Some v\<close> a
  member with the JSON value \<open>v\<close>.
\<close>

record job_body =
  b_title :: "string option"
  b_slug :: "string option"
  b_details :: "json option"
  b_description :: "json option"
  b_basicFormSchema :: "json option"
  b_applicationFormSchema :: "json option"
  b_applicationForm :: "json option"

text \<open>What JavaScript takes for true: everything but \<open>null\<close>, \<open>false\<close>, \<open>0\<close> and \<open>""\<close>.\<close>

fun truthy :: "json \<Rightarrow> bool" where
  "truthy JNull = False"
| "truthy (JBool b) = b"
| "truthy (JNum n) = (n \<noteq> 0)"
| "truthy (JStr s) = (s \<noteq> [])"
| "truthy (JArr xs) = True"
| "truthy (JObj kvs) = True"

text \<open>\<open>x || y\<close> with \<open>y\<close> possibly undefined, and \<open>x || d\<close> with a literal \<open>d\<close>.\<close>

definition js_or :: "json option \<Rightarrow> json option \<Rightarrow> json option" where
  "js_or x y = (case x of None \<Rightarrow> y | Some v \<Rightarrow> if truthy v then Some v else y)"

definition or_default :: "json option \<Rightarrow> json \<Rightarrow> json" where
  "or_default x d = (case x of None \<Rightarrow> d | Some v \<Rightarrow> if truthy v then v else d)"

text \<open>\<open>x ?? d\<close>.\<close>

definition nullish_or :: "string option \<Rightarrow> string \<Rightarrow> string" where
  "nullish_or x d = (case x of None \<Rightarrow> d | Some v \<Rightarrow> v)"

text \<open>
  What \<open>updatedDetails\<close> and \<open>updatedDescription\<close> hold: the text
  \<open>JSON.stringify\<close> gives for a value, or a value as the driver has read it from a
  JSON column of the row \<open>existing\<close>.
\<close>

datatype js_value = Stringified json | Row_value json

text \<open>\<open>x ? JSON.stringify(x) : existing.x\<close>.\<close>

definition stringify_or_existing :: "json option \<Rightarrow> json \<Rightarrow> js_value" where
  "stringify_or_existing x existing_x =
     (case x of
        None \<Rightarrow> Row_value existing_x
      | Some v \<Rightarrow> if truthy v then Stringified v else Row_value existing_x)"

text \<open>
  What a JSON column receives from a placeholder. The text of a value gives that value.
  What the driver makes of a value that is no text, and whether the engine takes the
  statement that results, is not in the source (\<open>mysql2\<close> writes an object out as a
  list of \<open>`key` = value\<close> pairs): \<open>rebind v\<close> is the value stored for \<open>v\<close>, or
  \<open>None\<close> when the statement is rejected.
\<close>

definition bound_json :: "(json \<Rightarrow> json option) \<Rightarrow> js_value \<Rightarrow> json option" where
  "bound_json rebind x = (case x of Stringified v \<Rightarrow> Some v | Row_value v \<Rightarrow> rebind v)"

text \<open>
  \<open>JSON.parse\<close>. The text \<open>JSON.stringify\<close> gave for a value parses to that value.
  An argument that is no text is converted to one first: an object to
  \<open>[object Object]\<close>, which is not JSON, so that the call throws; for a value of another
  shape (a string is parsed as it is), \<open>reparse v\<close> is the result, or \<open>None\<close> when
  the text is not JSON.
\<close>

fun JSON_parse :: "(json \<Rightarrow> json option) \<Rightarrow> js_value \<Rightarrow> js_error + json" where
  "JSON_parse reparse (Stringified v) = Inr v"
| "JSON_parse reparse (Row_value (JObj kvs)) = Inl SyntaxError"
| "JSON_parse reparse (Row_value v) =
     (case reparse v of None \<Rightarrow> Inl SyntaxError | Some w \<Rightarrow> Inr w)"

text \<open>
  \<open>UPDATE job_posts SET job_title = ?, slug = ?, details = ?, description = ? WHERE id = ?\<close>.
  The statement is rejected when one of its two JSON parameters is, and when another
  posting holds the new slug (the column \<open>slug\<close> is declared \<open>UNIQUE\<close>).
\<close>

definition update_job_posts ::
  "(json \<Rightarrow> json option) \<Rightarrow> string \<Rightarrow> string \<Rightarrow> js_value \<Rightarrow> js_value \<Rightarrow> nat \<Rightarrow> database
     \<Rightarrow> sql_error + database" where
  "update_job_posts rebind title slug details description i db =
     (case bound_json rebind details of
        None \<Rightarrow> Inl Rejected_parameter
      | Some d \<Rightarrow>
         (case bound_json rebind description of
            None \<Rightarrow> Inl Rejected_parameter
          | Some e \<Rightarrow>
              if \<exists>j \<in> set (job_posts db). j_id j \<noteq> i \<and> j_slug j = slug
              then Inl (Duplicate_entry ''slug'')
              else Inr (db\<lparr>job_posts :=
                          map (\<lambda>j. if j_id j = i
                                   then j\<lparr>j_job_title := title, j_slug := slug,
                                          j_details := d, j_description := e\<rparr>
                                   else j)
                              (job_posts db)\<rparr>)))"

text \<open>
  \<open>UPDATE job_application_forms SET basicFormSchema = ?, applicationFormSchema = ?
  WHERE job_post_id = ?\<close>.
\<close>

definition update_job_application_forms :: "json \<Rightarrow> json \<Rightarrow> nat \<Rightarrow> database \<Rightarrow> database" where
  "update_job_application_forms basic application i db =
     db\<lparr>job_application_forms :=
          map (\<lambda>f. if f_job_post_id f = i
                   then f\<lparr>f_basicFormSchema := basic, f_applicationFormSchema := application\<rparr>
                   else f)
              (job_application_forms db)\<rparr>"

text \<open>
  The handler, in the order of the source: fetch the posting (404 and rollback when there is
  none), compute the four new values, update the posting, update its form rows, commit,
  and build the answer, which parses \<open>updatedDetails\<close> and then
  \<open>updatedDescription\<close>. A rejected statement is caught: rollback, 500. A parse that
  throws is caught as well and answered 500, after the commit: the rollback of the
  \<open>catch\<close> block has nothing left to undo. The answer is the status code.
\<close>

definition patch_job ::
  "(json \<Rightarrow> json option) \<Rightarrow> (json \<Rightarrow> json option) \<Rightarrow> database \<Rightarrow> nat \<Rightarrow> job_body
     \<Rightarrow> nat \<times> database" where
  "patch_job rebind reparse db i body =
     (case filter (\<lambda>j. j_id j = i) (job_posts db) of
        [] \<Rightarrow> (404, db)
      | existing # _ \<Rightarrow>
          (let updatedTitle = nullish_or (b_title body) (j_job_title existing);
               updatedSlug = nullish_or (b_slug body) (j_slug existing);
               updatedDetails = stringify_or_existing (b_details body) (j_details existing);
               updatedDescription =
                 stringify_or_existing (b_description body) (j_description existing);
               formSchemaToUpdate = js_or (b_applicationFormSchema body) (b_applicationForm body)
           in (case update_job_posts rebind updatedTitle updatedSlug updatedDetails
                       updatedDescription i db of
                 Inl err \<Rightarrow> (500, rollback db db)
               | Inr db1 \<Rightarrow>
                   (let committed = update_job_application_forms
                                      (or_default (b_basicFormSchema body) (JArr []))
                                      (or_default formSchemaToUpdate (JObj [])) i db1
                    in (case JSON_parse reparse updatedDetails of
                          Inl thrown \<Rightarrow> (500, committed)
                        | Inr details \<Rightarrow>
                           (case JSON_parse reparse updatedDescription of
                              Inl thrown \<Rightarrow> (500, committed)
                            | Inr description \<Rightarrow> (200, committed)))))))"

text \<open>
  \<open>DELETE FROM job_posts WHERE id = ?\<close>. Three foreign keys point at \<open>job_posts(id)\<close>
  with \<open>ON DELETE CASCADE\<close> (from \<open>job_application_forms\<close>, \<open>applicants\<close> and
  \<open>shortlisted_candidates\<close>) and one at \<open>applicants(id)\<close> (from
  \<open>shortlisted_candidates\<close>): the rows that refer to a deleted row go with it. The
  result carries \<open>affectedRows\<close>, the number of postings deleted.
\<close>

definition delete_from_job_posts :: "nat \<Rightarrow> database \<Rightarrow> nat \<times> database" where
  "delete_from_job_posts i db =
     (let gone = filter (\<lambda>a. a_job_id a = i) (applicants db)
      in (length (filter (\<lambda>j. j_id j = i) (job_posts db)),
          db\<lparr>job_posts := filter (\<lambda>j. j_id j \<noteq> i) (job_posts db),
             job_application_forms :=
               filter (\<lambda>f. f_job_post_id f \<noteq> i) (job_application_forms db),
             applicants := filter (\<lambda>a. a_job_id a \<noteq> i) (applicants db),
             shortlisted_candidates :=
               filter (\<lambda>sc. sc_job_post_id sc \<noteq> i \<and> sc_applicant_id sc \<notin> a_id ` set gone)
                      (shortlisted_candidates db)\<rparr>))"

definition delete_job :: "database \<Rightarrow> nat \<Rightarrow> nat \<times> database" where
  "delete_job db i =
     (if filter (\<lambda>j. j_id j = i) (job_posts db) = [] then (404, db)
      else let (affectedRows, db') = delete_from_job_posts i db
           in if affectedRows = 0 then (404, db') else (200, db'))"

text \<open>The lookup of the applicants of a posting, \<open>GET /applicants/job/:job_id\<close>.\<close>

definition applicants_of_job :: "database \<Rightarrow> nat \<Rightarrow> applicant list" where
  "applicants_of_job db i = filter (\<lambda>a. a_job_id a = i) (applicants db)"

section \<open>POST /applicants\<close>

text \<open>
  \<open>multer\<close> has stored the resume before the handler runs: \<open>r_file\<close> is \<open>req.file\<close>,
  with the name the file got and the path it was written to. The three members of the body:
  \<^item> \<open>r_job_id\<close>: \<open>None\<close> for a member that is absent or the empty string;
  \<^item> \<open>r_basicFormData\<close>: \<open>Absent\<close> when there is none (or it parses to \<open>null\<close>),
    \<open>Throws\<close> when \<open>JSON.parse\<close> rejects the text or the value parsed has no
    \<open>find\<close> method, \<open>Parsed es\<close> for an array of entries;
  \<^item> \<open>r_applicationFormData\<close>: the same, with \<open>Throws\<close> for a text \<open>JSON.parse\<close>
    rejects.
\<close>

datatype 'a body_member = Absent | Throws | Parsed 'a

record uploaded_file =
  filename :: string
  path :: string

record applicant_request =
  r_job_id :: "nat option"
  r_basicFormData :: "form_entry list body_member"
  r_applicationFormData :: "json body_member"
  r_file :: "uploaded_file option"

text \<open>
  \<open>Array.prototype.find\<close> with a callback that reads \<open>field.label\<close> and
  \<open>field.name\<close>: entries are visited in order, the first one that satisfies the test is
  returned, and the visit of a \<open>null\<close> entry throws.
\<close>

fun find_entry ::
  "(string option \<Rightarrow> string option \<Rightarrow> bool) \<Rightarrow> form_entry list \<Rightarrow> js_error + form_entry option" where
  "find_entry P [] = Inr None"
| "find_entry P (Null_entry # es) = Inl TypeError"
| "find_entry P (Scalar_entry # es) = find_entry P es"
| "find_entry P (Field_entry l n v # es) =
     (if P l n then Inr (Some (Field_entry l n v)) else find_entry P es)"

definition is_full_name :: "string option \<Rightarrow> string option \<Rightarrow> bool" where
  "is_full_name l n \<longleftrightarrow> l = Some ''Full Name'' \<or> n = Some ''full_name'' \<or> n = Some ''fullName''"

definition is_email :: "string option \<Rightarrow> string option \<Rightarrow> bool" where
  "is_email l n \<longleftrightarrow> l = Some ''Email'' \<or> n = Some ''email''"

definition is_phone :: "string option \<Rightarrow> string option \<Rightarrow> bool" where
  "is_phone l n \<longleftrightarrow> l = Some ''Phone'' \<or> n = Some ''phone''"

text \<open>\<open>field?.value || ''\<close>.\<close>

fun value_or_empty :: "form_entry option \<Rightarrow> string" where
  "value_or_empty (Some (Field_entry l n (Some v))) = v"
| "value_or_empty _ = []"

text \<open>
  The first part of the handler, up to the validation: the two parses and the three scans.
  The result is \<open>(full_name, email, phone)\<close>, or what was thrown.
\<close>

definition extract_contact :: "applicant_request \<Rightarrow> js_error + string \<times> string \<times> string" where
  "extract_contact req =
     (case r_basicFormData req of
        Throws \<Rightarrow> Inl SyntaxError
      | Absent \<Rightarrow>
          (case r_applicationFormData req of
             Throws \<Rightarrow> Inl SyntaxError
           | _ \<Rightarrow> Inr ([], [], []))
      | Parsed es \<Rightarrow>
          (case r_applicationFormData req of
             Throws \<Rightarrow> Inl SyntaxError
           | _ \<Rightarrow>
              (case find_entry is_full_name es of
                 Inl e \<Rightarrow> Inl e
               | Inr fullNameField \<Rightarrow>
                  (case find_entry is_email es of
                     Inl e \<Rightarrow> Inl e
                   | Inr emailField \<Rightarrow>
                      (case find_entry is_phone es of
                         Inl e \<Rightarrow> Inl e
                       | Inr phoneField \<Rightarrow>
                           Inr (value_or_empty fullNameField, value_or_empty emailField,
                                value_or_empty phoneField))))))"

text \<open>
  \<open>INSERT INTO applicants (uuid, job_id, basicFormData, applicationFormData, resume_path)\<close>:
  \<open>job_id\<close> is a foreign key to \<open>job_posts(id)\<close> and \<open>uuid\<close> has a unique key. The
  result carries \<open>insertId\<close>.
\<close>

definition insert_applicant ::
  "string \<Rightarrow> nat \<Rightarrow> form_entry list \<Rightarrow> json \<Rightarrow> string option \<Rightarrow> database
     \<Rightarrow> sql_error + nat \<times> database" where
  "insert_applicant uuid job basic application resume db =
     (if job \<notin> j_id ` set (job_posts db) then Inl (Foreign_key ''job_id'')
      else if uuid \<in> a_uuid ` set (applicants db) then Inl (Duplicate_entry ''uuid'')
      else Inr (next_applicant_id db,
                db\<lparr>applicants := applicants db @
                      [\<lparr>a_id = next_applicant_id db, a_uuid = uuid, a_job_id = job,
                        a_basicFormData = basic, a_applicationFormData = application,
                        a_resume_path = resume\<rparr>],
                    next_applicant_id := Suc (next_applicant_id db)\<rparr>))"

text \<open>
  \<open>INSERT INTO shortlisted_candidates (job_post_id, applicant_id, full_name, email, phone,
  rating, status, stage)\<close>. \<open>None\<close> is a parameter bound to \<open>NULL\<close>; \<open>full_name\<close>
  and \<open>email\<close> are declared \<open>NOT NULL\<close>, \<open>job_post_id\<close> and \<open>applicant_id\<close> are
  foreign keys. The column \<open>note\<close> is not named and is left \<open>NULL\<close>.
\<close>

definition insert_shortlisted_candidate ::
  "nat \<Rightarrow> nat \<Rightarrow> string option \<Rightarrow> string option \<Rightarrow> string option \<Rightarrow> int \<Rightarrow> string \<Rightarrow> string
     \<Rightarrow> database \<Rightarrow> sql_error + database" where
  "insert_shortlisted_candidate job applicant full_name email phone rating status stage db =
     (case full_name of
        None \<Rightarrow> Inl (Not_null ''full_name'')
      | Some fn \<Rightarrow>
         (case email of
            None \<Rightarrow> Inl (Not_null ''email'')
          | Some em \<Rightarrow>
              if job \<notin> j_id ` set (job_posts db) then Inl (Foreign_key ''job_post_id'')
              else if applicant \<notin> a_id ` set (applicants db) then Inl (Foreign_key ''applicant_id'')
              else Inr (db\<lparr>shortlisted_candidates := shortlisted_candidates db @
                              [\<lparr>sc_id = next_shortlisted_id db, sc_job_post_id = job,
                                sc_applicant_id = applicant, sc_full_name = fn, sc_email = em,
                                sc_phone = phone, sc_rating = rating, sc_status = status,
                                sc_stage = stage, sc_note = None\<rparr>],
                            next_shortlisted_id := Suc (next_shortlisted_id db)\<rparr>)))"

text \<open>
  The two statements between \<open>beginTransaction\<close> and \<open>commit\<close>. Besides the reasons
  the schema gives, the engine may reject a statement for one the schema does not determine
  (a lost connection, a lock timeout, a value too long for its column): \<open>fault k\<close> says
  that it rejects the \<open>k\<close>-th statement. The result on the left is the error together
  with the state reached when it was thrown.
\<close>

definition submit_transaction ::
  "(nat \<Rightarrow> bool) \<Rightarrow> string \<Rightarrow> nat \<Rightarrow> applicant_request \<Rightarrow> string \<Rightarrow> string \<Rightarrow> string
     \<Rightarrow> string option \<Rightarrow> database \<Rightarrow> sql_error \<times> database + nat \<times> database" where
  "submit_transaction fault applicantUuid job req full_name email phone resume_path db =
     (if fault 1 then Inl (Engine_failure, db)
      else case insert_applicant applicantUuid job
                  (case r_basicFormData req of Parsed es \<Rightarrow> es | _ \<Rightarrow> [])
                  (case r_applicationFormData req of
                     Parsed v \<Rightarrow> if truthy v then v else JObj []
                   | _ \<Rightarrow> JObj [])
                  resume_path db of
             Inl err \<Rightarrow> Inl (err, db)
           | Inr (applicantId, db1) \<Rightarrow>
               if fault 2 then Inl (Engine_failure, db1)
               else (case insert_shortlisted_candidate job applicantId (Some full_name)
                            (Some email) (Some phone) 0 ''New Application''
                            ''Application Screening'' db1 of
                       Inl err \<Rightarrow> Inl (err, db1)
                     | Inr db2 \<Rightarrow> Inr (applicantId, db2)))"

text \<open>
  \<open>fs.unlink(req.file.path, () => {})\<close> in the \<open>catch\<close> block: the file is removed
  when the call succeeds (\<open>unlink_ok\<close>), and a failure is ignored.
\<close>

definition unlink_upload :: "bool \<Rightarrow> uploaded_file option \<Rightarrow> string set \<Rightarrow> string set" where
  "unlink_upload unlink_ok file files =
     (case file of
        None \<Rightarrow> files
      | Some f \<Rightarrow> if unlink_ok then files - {path f} else files)"

text \<open>
  The handler. Its state is the database and the set of files on disk; its answer is the
  status code. In order: the parses and scans, the check of \<open>job_id\<close>, \<open>full_name\<close>
  and \<open>email\<close> (400), the check of the resume (400), the transaction (201), and the
  \<open>catch\<close> block for whatever was thrown on the way (rollback, unlink, 500).
\<close>

definition post_applicants ::
  "(nat \<Rightarrow> bool) \<Rightarrow> bool \<Rightarrow> string \<Rightarrow> database \<Rightarrow> string set \<Rightarrow> applicant_request
     \<Rightarrow> nat \<times> database \<times> string set" where
  "post_applicants fault unlink_ok applicantUuid db files req =
     (let resume_path = map_option (\<lambda>f. ''/uploads/resumes/'' @ filename f) (r_file req)
      in case extract_contact req of
           Inl thrown \<Rightarrow> (500, rollback db db, unlink_upload unlink_ok (r_file req) files)
         | Inr (full_name, email, phone) \<Rightarrow>
             (case r_job_id req of
                None \<Rightarrow> (400, db, files)
              | Some job \<Rightarrow>
                  if full_name = [] \<or> email = [] then (400, db, files)
                  else if resume_path = None then (400, db, files)
                  else (case submit_transaction fault applicantUuid job req full_name email
                               phone resume_path db of
                          Inl (err, db') \<Rightarrow>
                            (500, rollback db db', unlink_upload unlink_ok (r_file req) files)
                        | Inr (applicantId, db') \<Rightarrow> (201, db', files))))"

section \<open>The filtered views\<close>

text \<open>
  The three listers run the same join,
  \<open>shortlisted_candidates sc JOIN applicants a ON a.id = sc.applicant_id JOIN job_posts j
  ON j.id = sc.job_post_id WHERE sc.status = ?\<close>, and differ in the columns of
  \<open>applicants\<close> they select and in the status they filter on. The comparison of the
  \<open>WHERE\<close> clause is taken to be equality of strings. An answer is the status code
  and the joined rows its entries are built from; a rejected statement is answered 500
  with no rows.
\<close>

definition joined ::
  "database \<Rightarrow> (shortlisted_candidate \<times> applicant \<times> job_post) list" where
  "joined db =
     [(sc, a, j). sc \<leftarrow> shortlisted_candidates db,
                  a \<leftarrow> applicants db, a_id a = sc_applicant_id sc,
                  j \<leftarrow> job_posts db, j_id j = sc_job_post_id sc]"

definition select_by_status ::
  "string list \<Rightarrow> string \<Rightarrow> database
     \<Rightarrow> sql_error + (shortlisted_candidate \<times> applicant \<times> job_post) list" where
  "select_by_status applicant_columns wanted db =
     (case check_columns applicants_columns applicant_columns of
        Inl err \<Rightarrow> Inl err
      | Inr _ \<Rightarrow> Inr (filter (\<lambda>(sc, a, j). sc_status sc = wanted) (joined db)))"

definition lister ::
  "string list \<Rightarrow> string \<Rightarrow> database
     \<Rightarrow> nat \<times> (shortlisted_candidate \<times> applicant \<times> job_post) list" where
  "lister applicant_columns wanted db =
     (case select_by_status applicant_columns wanted db of
        Inl err \<Rightarrow> (500, [])
      | Inr rows \<Rightarrow> (200, rows))"

definition applicants_shortlisted ::
  "database \<Rightarrow> nat \<times> (shortlisted_candidate \<times> applicant \<times> job_post) list" where
  "applicants_shortlisted =
     lister [''resume_path'', ''basicFormData'', ''applicationFormData'', ''steps_json'',
             ''fields_json''] ''Shortlisted''"

definition applicants_rejected ::
  "database \<Rightarrow> nat \<times> (shortlisted_candidate \<times> applicant \<times> job_post) list" where
  "applicants_rejected = lister [''resume_path''] ''Rejected''"

definition applicants_hired ::
  "database \<Rightarrow> nat \<times> (shortlisted_candidate \<times> applicant \<times> job_post) list" where
  "applicants_hired = lister [''resume_path''] ''Hired''"

section \<open>PATCH /applicants/:id/stage\<close>

text \<open>The members of the body; \<open>None\<close> is \<open>undefined\<close>.\<close>

record stage_body =
  b_stageId :: "string option"
  b_status :: "string option"
  b_note :: "string option"

text \<open>
  \<open>SELECT job_id, full_name, email, phone FROM applicants WHERE id = ?\<close>, and the read
  of a text column of a row it returns (\<open>applicant.full_name\<close> and so on). A row of
  \<open>applicants\<close> carries its declared columns only, of which \<open>uuid\<close> and
  \<open>resume_path\<close> are texts: the read of any other name gives \<open>undefined\<close>, which
  is bound as \<open>NULL\<close>.
\<close>

definition select_applicant :: "database \<Rightarrow> nat \<Rightarrow> sql_error + applicant list" where
  "select_applicant db i =
     (case check_columns applicants_columns [''job_id'', ''full_name'', ''email'', ''phone''] of
        Inl err \<Rightarrow> Inl err
      | Inr _ \<Rightarrow> Inr (filter (\<lambda>a. a_id a = i) (applicants db)))"

definition text_column :: "applicant \<Rightarrow> string \<Rightarrow> string option" where
  "text_column a c =
     (if c = ''uuid'' then Some (a_uuid a)
      else if c = ''resume_path'' then a_resume_path a
      else None)"

text \<open>
  \<open>UPDATE shortlisted_candidates SET ... WHERE applicant_id = ?\<close> with the assignments
  the handler has collected, each a column and its new value. The result carries
  \<open>affectedRows\<close>, the number of rows the \<open>WHERE\<close> clause matches.
\<close>

definition set_column :: "string \<times> string \<Rightarrow> shortlisted_candidate \<Rightarrow> shortlisted_candidate" where
  "set_column cv r =
     (if fst cv = ''stage'' then r\<lparr>sc_stage := snd cv\<rparr>
      else if fst cv = ''status'' then r\<lparr>sc_status := snd cv\<rparr>
      else if fst cv = ''note'' then r\<lparr>sc_note := Some (snd cv)\<rparr>
      else r)"

definition update_shortlisted_candidates ::
  "(string \<times> string) list \<Rightarrow> nat \<Rightarrow> database \<Rightarrow> nat \<times> database" where
  "update_shortlisted_candidates assignments i db =
     (length (filter (\<lambda>r. sc_applicant_id r = i) (shortlisted_candidates db)),
      db\<lparr>shortlisted_candidates :=
           map (\<lambda>r. if sc_applicant_id r = i then fold set_column assignments r else r)
               (shortlisted_candidates db)\<rparr>)"

definition updateFields :: "stage_body \<Rightarrow> (string \<times> string) list" where
  "updateFields body =
     (case b_stageId body of None \<Rightarrow> [] | Some v \<Rightarrow> [(''stage'', v)]) @
     (case b_status body of None \<Rightarrow> [] | Some v \<Rightarrow> [(''status'', v)]) @
     (case b_note body of None \<Rightarrow> [] | Some v \<Rightarrow> [(''note'', v)])"

text \<open>
  The select that fetches the updated applicant for the answer:
  \<open>applicants a JOIN job_posts j ON j.id = a.job_id JOIN shortlisted_candidates sc ON
  sc.applicant_id = a.id WHERE a.id = ?\<close>, with nine columns of \<open>applicants\<close> named.
\<close>

definition select_updated ::
  "database \<Rightarrow> nat \<Rightarrow> sql_error + (applicant \<times> job_post \<times> shortlisted_candidate) list" where
  "select_updated db i =
     (case check_columns applicants_columns
             [''id'', ''full_name'', ''email'', ''phone'', ''resume_path'', ''steps_json'',
              ''fields_json'', ''created_at'', ''job_id''] of
        Inl err \<Rightarrow> Inl err
      | Inr _ \<Rightarrow>
          Inr [(a, j, sc). a \<leftarrow> applicants db, a_id a = i,
                           j \<leftarrow> job_posts db, j_id j = a_job_id a,
                           sc \<leftarrow> shortlisted_candidates db, sc_applicant_id sc = a_id a])"

text \<open>
  The second half of the handler, from the collection of the assignments on. None of its
  statements is inside a transaction: what the update has written stays written whatever
  the answer is.
\<close>

definition apply_stage_update :: "database \<Rightarrow> nat \<Rightarrow> stage_body \<Rightarrow> nat \<times> database" where
  "apply_stage_update db i body =
     (if updateFields body = [] then (400, db)
      else let (affectedRows, db') = update_shortlisted_candidates (updateFields body) i db
           in if affectedRows = 0 then (404, db')
              else (case select_updated db' i of
                      Inl err \<Rightarrow> (500, db')
                    | Inr [] \<Rightarrow> (404, db')
                    | Inr (updated # _) \<Rightarrow> (200, db')))"

text \<open>
  The handler: when the applicant has no row in \<open>shortlisted_candidates\<close>, the applicant
  is fetched (404 when there is none) and a row is inserted first; then the update. A
  rejected statement is caught and answered 500.
\<close>

definition patch_stage :: "database \<Rightarrow> nat \<Rightarrow> stage_body \<Rightarrow> nat \<times> database" where
  "patch_stage db i body =
     (if filter (\<lambda>r. sc_applicant_id r = i) (shortlisted_candidates db) = []
      then (case select_applicant db i of
              Inl err \<Rightarrow> (500, db)
            | Inr [] \<Rightarrow> (404, db)
            | Inr (applicant # _) \<Rightarrow>
                (case insert_shortlisted_candidate (a_job_id applicant) i
                        (text_column applicant ''full_name'') (text_column applicant ''email'')
                        (text_column applicant ''phone'') 0 ''New Application''
                        ''Application Screening'' db of
                   Inl err \<Rightarrow> (500, db)
                 | Inr db1 \<Rightarrow> apply_stage_update db1 i body))
      else apply_stage_update db i body)"

section \<open>Example states\<close>

text \<open>A database just after \<open>createTables\<close>: no rows, counters at one.\<close>

definition empty_database :: database where
  "empty_database =
     \<lparr>admin_users = [], job_posts = [], job_application_forms = [], applicants = [],
      shortlisted_candidates = [], next_admin_user_id = 1, next_applicant_id = 1,
      next_shortlisted_id = 1\<rparr>"

text \<open>
  A database with one posting and its form, two applicants for it, and two rows of
  \<open>shortlisted_candidates\<close>, both for the second applicant (no key of the table stands
  in the way); the first applicant has none.
\<close>

definition example_database :: database where
  "example_database =
     \<lparr>admin_users = [],
      job_posts =
        [\<lparr>j_id = 1, j_uuid = ''job-1'', j_job_title = ''Engineer'', j_slug = ''eng-1'',
          j_details = JObj [(''department'', JStr ''Engineering'')],
          j_description = JObj [], j_created_by = 1\<rparr>],
      job_application_forms =
        [\<lparr>f_id = 1, f_uuid = ''form-1'', f_job_post_id = 1,
          f_basicFormSchema = JArr [JStr ''Full Name'', JStr ''Email''],
          f_applicationFormSchema = JObj [(''steps'', JArr [])]\<rparr>],
      applicants =
        [\<lparr>a_id = 1, a_uuid = ''applicant-1'', a_job_id = 1,
          a_basicFormData =
            [Field_entry (Some ''Full Name'') None (Some ''Jo''),
             Field_entry (Some ''Email'') None (Some ''jo@x.com'')],
          a_applicationFormData = JObj [], a_resume_path = Some ''/uploads/resumes/1.pdf''\<rparr>,
         \<lparr>a_id = 2, a_uuid = ''applicant-2'', a_job_id = 1,
          a_basicFormData =
            [Field_entry (Some ''Full Name'') None (Some ''Al''),
             Field_entry (Some ''Email'') None (Some ''al@x.com'')],
          a_applicationFormData = JObj [], a_resume_path = Some ''/uploads/resumes/2.pdf''\<rparr>],
      shortlisted_candidates =
        [\<lparr>sc_id = 1, sc_job_post_id = 1, sc_applicant_id = 2, sc_full_name = ''Al'',
          sc_email = ''al@x.com'', sc_phone = Some [], sc_rating = 0,
          sc_status = ''Shortlisted'', sc_stage = ''Application Screening'', sc_note = None\<rparr>,
         \<lparr>sc_id = 2, sc_job_post_id = 1, sc_applicant_id = 2, sc_full_name = ''Al'',
          sc_email = ''al@x.com'', sc_phone = Some [], sc_rating = 0,
          sc_status = ''New Application'', sc_stage = ''Application Screening'',
          sc_note = None\<rparr>],
      next_admin_user_id = 1, next_applicant_id = 3, next_shortlisted_id = 3\<rparr>"

text \<open>
  Two bodies for \<open>PATCH /jobs/:id\<close>: \<open>{"title": "Senior Engineer"}\<close>, and
  \<open>{"title": "Senior Engineer", "details": {"department": "Research"}, "description":
  {"summary": "Leads the team"}}\<close>.
\<close>

definition rename_only :: job_body where
  "rename_only =
     \<lparr>b_title = Some ''Senior Engineer'', b_slug = None, b_details = None,
      b_description = None, b_basicFormSchema = None, b_applicationFormSchema = None,
      b_applicationForm = None\<rparr>"

definition rename_with_both :: job_body where
  "rename_with_both =
     \<lparr>b_title = Some ''Senior Engineer'', b_slug = None,
      b_details = Some (JObj [(''department'', JStr ''Research'')]),
      b_description = Some (JObj [(''summary'', JStr ''Leads the team'')]),
      b_basicFormSchema = None, b_applicationFormSchema = None, b_applicationForm = None\<rparr>"

text \<open>
  An upload as \<open>multer\<close> leaves it, and three submissions for posting 1: a complete
  one, one with a resume and no email, and one without a resume whose \<open>basicFormData\<close>
  is not JSON.
\<close>

definition resume_upload :: uploaded_file where
  "resume_upload = \<lparr>filename = ''1730-42.pdf'', path = ''/srv/uploads/resumes/1730-42.pdf''\<rparr>"

definition complete_request :: applicant_request where
  "complete_request =
     \<lparr>r_job_id = Some 1,
      r_basicFormData =
        Parsed [Field_entry (Some ''Full Name'') None (Some ''Jo''),
                Field_entry (Some ''Email'') None (Some ''jo@x.com'')],
      r_applicationFormData = Absent,
      r_file = Some resume_upload\<rparr>"

definition request_without_email :: applicant_request where
  "request_without_email =
     \<lparr>r_job_id = Some 1,
      r_basicFormData = Parsed [Field_entry (Some ''Full Name'') None (Some ''Jo'')],
      r_applicationFormData = Absent,
      r_file = Some resume_upload\<rparr>"

definition malformed_request :: applicant_request where
  "malformed_request =
     \<lparr>r_job_id = Some 1, r_basicFormData = Throws, r_applicationFormData = Absent,
      r_file = None\<rparr>"

text \<open>Two bodies for \<open>PATCH /applicants/:id/stage\<close>.\<close>

definition shortlist_body :: stage_body where
  "shortlist_body = \<lparr>b_stageId = None, b_status = Some ''Shortlisted'', b_note = None\<rparr>"

definition hire_body :: stage_body where
  "hire_body = \<lparr>b_stageId = None, b_status = Some ''Hired'', b_note = None\<rparr>"

section \<open>Properties of the signup check\<close>

lemma allowed_not_line_terminator: "allowed c \<Longrightarrow> \<not> line_terminator c"
  by (auto simp: allowed_def upper_def lower_def digit_def symbol_def line_terminator_def)

lemma lookahead_allowed: "list_all allowed s \<Longrightarrow> lookahead C s \<longleftrightarrow> list_ex C s"
  by (induction s) (auto dest: allowed_not_line_terminator)

lemma passwordRegex_test_iff:
  "passwordRegex_test p \<longleftrightarrow> stated_policy p \<and> list_all allowed p"
  unfolding passwordRegex_test_def stated_policy_def
  using lookahead_allowed [of p] by blast

lemma signup_answer_cases:
  "fst (signup hash uuid db full_name email password) =
     (if \<not> passwordRegex_test password then (400, ''Password must meet complexity rules'')
      else if filter (\<lambda>u. u_email u = email) (admin_users db) \<noteq> []
      then (400, ''Admin already exists'')
      else case insert_admin_user uuid full_name email (hash password) db of
             Inl err \<Rightarrow> (500, ''Internal server error'')
           | Inr db' \<Rightarrow> (200, ''Admin registered successfully''))"
  by (simp add: signup_def split: sum.split)

text \<open>
  C8, as the code has it. A signup is answered 400 "Password must meet complexity rules"
  exactly when the password fails the policy of the specification (eight characters or
  more, a lowercase letter, an uppercase letter, a digit, a symbol of \<open>!@#$%^&*\<close>) or
  has a character that is none of these four kinds.
\<close>

theorem signup_rejects_password_iff:
  "fst (signup hash uuid db full_name email password)
     = (400, ''Password must meet complexity rules'')
   \<longleftrightarrow> \<not> (stated_policy password \<and> list_all allowed password)"
proof (cases "passwordRegex_test password")
  case True
  then have "fst (signup hash uuid db full_name email password)
               \<noteq> (400, ''Password must meet complexity rules'')"
    by (simp add: signup_answer_cases split: sum.split)
  with True show ?thesis
    by (simp add: passwordRegex_test_iff)
next
  case False
  then show ?thesis
    by (simp add: signup_answer_cases passwordRegex_test_iff)
qed

lemma policy_of_Abcdef1: "stated_policy ''Abcdef1!'' \<and> list_all allowed ''Abcdef1!''"
  by (simp add: stated_policy_def allowed_def lower_def upper_def digit_def symbol_def)

theorem signup_rejects_password_iff_witness:
  "stated_policy ''Abcdef1!'' \<and> list_all allowed ''Abcdef1!'' \<and>
   fst (signup rev ''u-1'' empty_database ''Jo'' ''jo@x.com'' ''Abcdef1!'')
     \<noteq> (400, ''Password must meet complexity rules'')"
  using signup_rejects_password_iff [of rev "''u-1''" empty_database "''Jo''" "''jo@x.com''"
      "''Abcdef1!''"] policy_of_Abcdef1
  by blast

text \<open>
  C8, as the specification has it, fails: \<open>Str0ng-Pass!\<close> has twelve characters, among
  them lowercase and uppercase letters, a digit and the symbol \<open>!\<close>, and the signup
  is answered 400 all the same, for the hyphen.
\<close>

theorem signup_policy_counterexample:
  "stated_policy ''Str0ng-Pass!'' \<and>
   fst (signup rev ''u-1'' empty_database ''Jo'' ''jo@x.com'' ''Str0ng-Pass!'')
     = (400, ''Password must meet complexity rules'')"
  by (simp add: stated_policy_def signup_def passwordRegex_test_def allowed_def
      lower_def upper_def digit_def symbol_def)

section \<open>Properties of the posting handlers\<close>

lemma rollback_same: "rollback db db = db"
  by (simp add: rollback_def)

lemma example_job_posts:
  "job_posts example_database =
     [\<lparr>j_id = 1, j_uuid = ''job-1'', j_job_title = ''Engineer'', j_slug = ''eng-1'',
       j_details = JObj [(''department'', JStr ''Engineering'')],
       j_description = JObj [], j_created_by = 1\<rparr>]"
  by (simp add: example_database_def)

lemma example_job_application_forms:
  "job_application_forms example_database =
     [\<lparr>f_id = 1, f_uuid = ''form-1'', f_job_post_id = 1,
       f_basicFormSchema = JArr [JStr ''Full Name'', JStr ''Email''],
       f_applicationFormSchema = JObj [(''steps'', JArr [])]\<rparr>]"
  by (simp add: example_database_def)

text \<open>The value an update computes for a JSON column of the posting.\<close>

lemma stringify_or_existing_absent: "stringify_or_existing None v = Row_value v"
  by (simp add: stringify_or_existing_def)

lemma stringify_or_existing_truthy:
  "truthy v \<Longrightarrow> stringify_or_existing (Some v) w = Stringified v"
  by (simp add: stringify_or_existing_def)

text \<open>
  An update that keeps the details or the description of a posting whose column holds an
  object is answered 500, whatever the driver and the engine make of the object: either
  the statement is rejected, or the answer is built from \<open>JSON.parse\<close> of the object.
\<close>

lemma patch_job_keeping_object:
  assumes "filter (\<lambda>j. j_id j = i) (job_posts db) = existing # rest"
    and "stringify_or_existing (b_details body) (j_details existing) = Row_value (JObj kvs) \<or>
         stringify_or_existing (b_description body) (j_description existing)
           = Row_value (JObj kvs)"
  shows "fst (patch_job rebind reparse db i body) = 500"
  using assms
  by (auto simp: patch_job_def Let_def split: sum.splits)

text \<open>
  The database it leaves: untouched when the statement is rejected, and else what the two
  updates have written, committed before the parse throws.
\<close>

lemma patch_job_rejected_parameter:
  assumes "filter (\<lambda>j. j_id j = i) (job_posts db) = existing # rest"
    and "bound_json rebind (stringify_or_existing (b_details body) (j_details existing))
           = None"
  shows "patch_job rebind reparse db i body = (500, db)"
  using assms
  by (simp add: patch_job_def Let_def update_job_posts_def rollback_same)

lemma patch_job_database:
  assumes "filter (\<lambda>j. j_id j = i) (job_posts db) = existing # rest"
    and "update_job_posts rebind (nullish_or (b_title body) (j_job_title existing))
           (nullish_or (b_slug body) (j_slug existing))
           (stringify_or_existing (b_details body) (j_details existing))
           (stringify_or_existing (b_description body) (j_description existing)) i db
         = Inr db1"
  shows "snd (patch_job rebind reparse db i body) =
           update_job_application_forms (or_default (b_basicFormSchema body) (JArr []))
             (or_default (js_or (b_applicationFormSchema body) (b_applicationForm body))
                (JObj [])) i db1"
  using assms
  by (simp add: patch_job_def Let_def split: sum.splits)

text \<open>
  The sibling path: with both \<open>details\<close> and \<open>description\<close> supplied and truthy, and
  the slug free, the update commits and is answered 200. Title and slug go through
  \<open>??\<close>, the two JSON columns take the supplied values, and the form rows of the
  posting are overwritten.
\<close>

lemma patch_job_both_supplied:
  assumes "filter (\<lambda>j. j_id j = i) (job_posts db) = existing # rest"
    and "b_details body = Some d" and "truthy d"
    and "b_description body = Some e" and "truthy e"
    and "\<not> (\<exists>j \<in> set (job_posts db).
              j_id j \<noteq> i \<and> j_slug j = nullish_or (b_slug body) (j_slug existing))"
  shows "patch_job rebind reparse db i body =
           (200, update_job_application_forms (or_default (b_basicFormSchema body) (JArr []))
                   (or_default (js_or (b_applicationFormSchema body) (b_applicationForm body))
                      (JObj [])) i
                   (db\<lparr>job_posts :=
                        map (\<lambda>j. if j_id j = i
                                 then j\<lparr>j_job_title := nullish_or (b_title body) (j_job_title existing),
                                        j_slug := nullish_or (b_slug body) (j_slug existing),
                                        j_details := d, j_description := e\<rparr>
                                 else j)
                            (job_posts db)\<rparr>))"
  using assms
  by (simp add: patch_job_def Let_def update_job_posts_def bound_json_def
      stringify_or_existing_truthy)

lemma example_posting:
  "filter (\<lambda>j. j_id j = 1) (job_posts example_database) =
     \<lparr>j_id = 1, j_uuid = ''job-1'', j_job_title = ''Engineer'', j_slug = ''eng-1'',
       j_details = JObj [(''department'', JStr ''Engineering'')],
       j_description = JObj [], j_created_by = 1\<rparr> # []"
  by (simp add: example_job_posts)

lemma patch_job_both_supplied_example:
  "fst (patch_job rebind reparse example_database 1 rename_with_both) = 200 \<and>
   map j_job_title (job_posts (snd (patch_job rebind reparse example_database 1 rename_with_both)))
     = [''Senior Engineer''] \<and>
   map j_details (job_posts (snd (patch_job rebind reparse example_database 1 rename_with_both)))
     = [JObj [(''department'', JStr ''Research'')]] \<and>
   map f_basicFormSchema
     (job_application_forms (snd (patch_job rebind reparse example_database 1 rename_with_both)))
     = [JArr []]"
proof -
  have "patch_job rebind reparse example_database 1 rename_with_both =
          (200, update_job_application_forms (JArr []) (JObj []) 1
                  (example_database\<lparr>job_posts :=
                     map (\<lambda>j. if j_id j = 1
                              then j\<lparr>j_job_title := ''Senior Engineer'', j_slug := ''eng-1'',
                                     j_details := JObj [(''department'', JStr ''Research'')],
                                     j_description := JObj [(''summary'', JStr ''Leads the team'')]\<rparr>
                              else j)
                         (job_posts example_database)\<rparr>))"
    using patch_job_both_supplied [OF example_posting, of rename_with_both
        "JObj [(''department'', JStr ''Research'')]"
        "JObj [(''summary'', JStr ''Leads the team'')]" rebind reparse]
    by (simp add: rename_with_both_def example_job_posts nullish_or_def or_default_def js_or_def)
  then show ?thesis
    by (simp add: update_job_application_forms_def example_job_posts
        example_job_application_forms)
qed

text \<open>
  C6 fails on the code. The body \<open>{"title": "Senior Engineer"}\<close> supplies neither
  \<open>details\<close> nor \<open>description\<close>; posting 1 holds an object in both columns. The
  update is answered 500 whatever the driver does with the objects. When their binding is
  rejected nothing is written, the new title included; when it is taken, the new title is
  committed and the request is answered 500 all the same.
\<close>

theorem patch_job_rename_answered_500:
  "b_details rename_only = None \<and> b_description rename_only = None \<and>
   fst (patch_job rebind reparse example_database 1 rename_only) = 500 \<and>
   patch_job (\<lambda>v. None) reparse example_database 1 rename_only = (500, example_database) \<and>
   map j_job_title (job_posts (snd (patch_job Some reparse example_database 1 rename_only)))
     = [''Senior Engineer'']"
proof -
  have absent: "b_details rename_only = None" "b_description rename_only = None"
    by (simp_all add: rename_only_def)
  have "fst (patch_job rebind reparse example_database 1 rename_only) = 500"
    by (rule patch_job_keeping_object [OF example_posting, of _ "[(''department'', JStr ''Engineering'')]"])
      (simp add: absent stringify_or_existing_absent)
  moreover have "patch_job (\<lambda>v. None) reparse example_database 1 rename_only
                   = (500, example_database)"
    by (rule patch_job_rejected_parameter [OF example_posting])
      (simp add: absent stringify_or_existing_absent bound_json_def)
  moreover have "map j_job_title
                   (job_posts (snd (patch_job Some reparse example_database 1 rename_only)))
                 = [''Senior Engineer'']"
  proof -
    have "update_job_posts Some ''Senior Engineer'' ''eng-1''
            (Row_value (JObj [(''department'', JStr ''Engineering'')])) (Row_value (JObj []))
            1 example_database
          = Inr (example_database\<lparr>job_posts :=
                   map (\<lambda>j. if j_id j = 1
                            then j\<lparr>j_job_title := ''Senior Engineer'', j_slug := ''eng-1'',
                                   j_details := JObj [(''department'', JStr ''Engineering'')],
                                   j_description := JObj []\<rparr>
                            else j)
                       (job_posts example_database)\<rparr>)"
      by (simp add: update_job_posts_def bound_json_def example_job_posts)
    from patch_job_database [OF example_posting, of Some rename_only, OF _]
      this
    show ?thesis
      by (simp add: absent stringify_or_existing_absent rename_only_def nullish_or_def
          update_job_application_forms_def example_job_posts)
  qed
  ultimately show ?thesis
    using absent by simp
qed

lemma delete_job_of_existing:
  assumes "i \<in> j_id ` set (job_posts db)"
  shows "delete_job db i = (200, snd (delete_from_job_posts i db))"
proof -
  from assms have "filter (\<lambda>j. j_id j = i) (job_posts db) \<noteq> []"
    by (auto simp: filter_empty_conv)
  then show ?thesis
    by (simp add: delete_job_def delete_from_job_posts_def Let_def)
qed

lemma delete_job_of_missing:
  "i \<notin> j_id ` set (job_posts db) \<Longrightarrow> delete_job db i = (404, db)"
  by (auto simp: delete_job_def filter_empty_conv)

text \<open>
  C9. The deletion of an existing posting \<open>i\<close> is answered 200 and leaves no posting
  \<open>i\<close>, no form row of it, no applicant of it and no row of \<open>shortlisted_candidates\<close>
  for it or for one of its applicants; a lookup of such an applicant by id finds nothing
  (\<open>id\<close> is the primary key of \<open>applicants\<close>), and a second deletion is answered 404.
\<close>

theorem delete_job_cascade:
  assumes posting: "i \<in> j_id ` set (job_posts db)"
    and pk: "distinct (map a_id (applicants db))"
    and run: "delete_job db i = (status, db')"
  shows "status = 200 \<and>
         i \<notin> j_id ` set (job_posts db') \<and>
         filter (\<lambda>f. f_job_post_id f = i) (job_application_forms db') = [] \<and>
         applicants_of_job db' i = [] \<and>
         filter (\<lambda>sc. sc_job_post_id sc = i) (shortlisted_candidates db') = [] \<and>
         (\<forall>a \<in> set (applicants db).
            a_job_id a = i \<longrightarrow>
              a_id a \<notin> a_id ` set (applicants db') \<and>
              filter (\<lambda>sc. sc_applicant_id sc = a_id a) (shortlisted_candidates db') = []) \<and>
         fst (delete_job db' i) = 404"
proof -
  from run delete_job_of_existing [OF posting]
  have status: "status = 200" and db': "db' = snd (delete_from_job_posts i db)"
    by simp_all
  have posts: "job_posts db' = filter (\<lambda>j. j_id j \<noteq> i) (job_posts db)"
    and forms: "job_application_forms db' =
                  filter (\<lambda>f. f_job_post_id f \<noteq> i) (job_application_forms db)"
    and apps: "applicants db' = filter (\<lambda>a. a_job_id a \<noteq> i) (applicants db)"
    and short: "shortlisted_candidates db' =
                  filter (\<lambda>sc. sc_job_post_id sc \<noteq> i \<and>
                                sc_applicant_id sc \<notin> a_id ` set (filter (\<lambda>a. a_job_id a = i) (applicants db)))
                         (shortlisted_candidates db)"
    unfolding db' delete_from_job_posts_def Let_def by simp_all
  have gone: "i \<notin> j_id ` set (job_posts db')"
    unfolding posts by auto
  have inj: "inj_on a_id (set (applicants db))"
    using pk by (simp add: distinct_map)
  have each: "a_id a \<notin> a_id ` set (applicants db') \<and>
              filter (\<lambda>sc. sc_applicant_id sc = a_id a) (shortlisted_candidates db') = []"
    if a: "a \<in> set (applicants db)" and own: "a_job_id a = i" for a
  proof
    show "a_id a \<notin> a_id ` set (applicants db')"
    proof
      assume "a_id a \<in> a_id ` set (applicants db')"
      then obtain b where b: "b \<in> set (applicants db)" "a_job_id b \<noteq> i" "a_id b = a_id a"
        unfolding apps by auto
      with inj a have "b = a"
        by (auto dest: inj_onD)
      with b own show False by simp
    qed
    show "filter (\<lambda>sc. sc_applicant_id sc = a_id a) (shortlisted_candidates db') = []"
      unfolding short using a own by (auto simp: filter_empty_conv)
  qed
  show ?thesis
  proof (intro conjI ballI impI)
    show "status = 200" by (fact status)
    show "i \<notin> j_id ` set (job_posts db')" by (fact gone)
    show "filter (\<lambda>f. f_job_post_id f = i) (job_application_forms db') = []"
      unfolding forms by (simp add: filter_empty_conv)
    show "applicants_of_job db' i = []"
      unfolding applicants_of_job_def apps by (simp add: filter_empty_conv)
    show "filter (\<lambda>sc. sc_job_post_id sc = i) (shortlisted_candidates db') = []"
      unfolding short by (auto simp: filter_empty_conv)
    show "fst (delete_job db' i) = 404"
      using delete_job_of_missing [OF gone] by simp
  next
    fix a assume "a \<in> set (applicants db)" "a_job_id a = i"
    then show "a_id a \<notin> a_id ` set (applicants db')" using each by blast
  next
    fix a assume "a \<in> set (applicants db)" "a_job_id a = i"
    then show "filter (\<lambda>sc. sc_applicant_id sc = a_id a) (shortlisted_candidates db') = []"
      using each by blast
  qed
qed

lemma example_applicants_ids: "map a_id (applicants example_database) = [1, 2]"
  by (simp add: example_database_def)

lemma example_applicants_jobs: "map a_job_id (applicants example_database) = [1, 1]"
  by (simp add: example_database_def)

theorem delete_job_cascade_witness:
  "fst (delete_job example_database 1) = 200 \<and>
   job_posts (snd (delete_job example_database 1)) = [] \<and>
   job_application_forms (snd (delete_job example_database 1)) = [] \<and>
   applicants (snd (delete_job example_database 1)) = [] \<and>
   shortlisted_candidates (snd (delete_job example_database 1)) = [] \<and>
   applicants_of_job (snd (delete_job example_database 1)) 1 = [] \<and>
   fst (delete_job (snd (delete_job example_database 1)) 1) = 404"
proof -
  define status where "status = fst (delete_job example_database 1)"
  define db' where "db' = snd (delete_job example_database 1)"
  have posting: "1 \<in> j_id ` set (job_posts example_database)"
    by (simp add: example_job_posts)
  have pk: "distinct (map a_id (applicants example_database))"
    by (simp add: example_applicants_ids)
  have run: "delete_job example_database 1 = (status, db')"
    by (simp add: status_def db'_def)
  note cascade = delete_job_cascade [OF posting pk run]
  have rows: "job_posts db' = [] \<and> job_application_forms db' = [] \<and> applicants db' = [] \<and>
        shortlisted_candidates db' = []"
    unfolding db'_def
    by (simp add: delete_job_def delete_from_job_posts_def example_database_def)
  from cascade rows show ?thesis
    unfolding status_def db'_def by simp
qed

section \<open>Properties of the applicant submission\<close>

lemma same_rows_rollback: "same_rows db (rollback db now)"
  by (simp add: same_rows_def rollback_def)

lemma same_rows_refl: "same_rows db db"
  by (simp add: same_rows_def)

lemma insert_applicant_Inr:
  assumes "insert_applicant uuid job basic application resume db = Inr (k, db1)"
  shows "job \<in> j_id ` set (job_posts db) \<and> uuid \<notin> a_uuid ` set (applicants db) \<and>
         k = next_applicant_id db \<and>
         db1 = db\<lparr>applicants := applicants db @
                      [\<lparr>a_id = next_applicant_id db, a_uuid = uuid, a_job_id = job,
                        a_basicFormData = basic, a_applicationFormData = application,
                        a_resume_path = resume\<rparr>],
                    next_applicant_id := Suc (next_applicant_id db)\<rparr>"
  using assms by (auto simp: insert_applicant_def split: if_splits)

lemma insert_shortlisted_candidate_Inr:
  assumes "insert_shortlisted_candidate job applicant (Some fn) (Some em) phone rating status
             stage db = Inr db2"
  shows "db2 = db\<lparr>shortlisted_candidates := shortlisted_candidates db @
                     [\<lparr>sc_id = next_shortlisted_id db, sc_job_post_id = job,
                       sc_applicant_id = applicant, sc_full_name = fn, sc_email = em,
                       sc_phone = phone, sc_rating = rating, sc_status = status,
                       sc_stage = stage, sc_note = None\<rparr>],
                   next_shortlisted_id := Suc (next_shortlisted_id db)\<rparr>"
  using assms by (auto simp: insert_shortlisted_candidate_def split: if_splits)

lemma submit_transaction_Inr:
  assumes "submit_transaction fault uuid job req fn em ph resume db = Inr (k, db2)"
  shows "\<exists>a sc. applicants db2 = applicants db @ [a] \<and>
                shortlisted_candidates db2 = shortlisted_candidates db @ [sc] \<and>
                a_id a = k \<and> a_job_id a = job \<and> a_uuid a = uuid \<and> a_resume_path a = resume \<and>
                job \<in> j_id ` set (job_posts db) \<and>
                sc_applicant_id sc = k \<and> sc_job_post_id sc = job \<and>
                sc_full_name sc = fn \<and> sc_email sc = em \<and> sc_phone sc = Some ph \<and>
                sc_rating sc = 0 \<and> sc_status sc = ''New Application'' \<and>
                sc_stage sc = ''Application Screening'' \<and> sc_note sc = None \<and>
                job_posts db2 = job_posts db \<and>
                job_application_forms db2 = job_application_forms db \<and>
                admin_users db2 = admin_users db"
proof -
  from assms obtain db1 where
    first: "insert_applicant uuid job
              (case r_basicFormData req of Parsed es \<Rightarrow> es | _ \<Rightarrow> [])
              (case r_applicationFormData req of
                 Parsed v \<Rightarrow> if truthy v then v else JObj []
               | _ \<Rightarrow> JObj [])
              resume db = Inr (k, db1)" and
    second: "insert_shortlisted_candidate job k (Some fn) (Some em) (Some ph) 0
               ''New Application'' ''Application Screening'' db1 = Inr db2"
    by (auto simp: submit_transaction_def split: if_splits sum.splits)
  note a = insert_applicant_Inr [OF first]
  note b = insert_shortlisted_candidate_Inr [OF second]
  from a have db1: "applicants db1 = applicants db @
                      [\<lparr>a_id = k, a_uuid = uuid, a_job_id = job,
                        a_basicFormData = (case r_basicFormData req of Parsed es \<Rightarrow> es | _ \<Rightarrow> []),
                        a_applicationFormData =
                          (case r_applicationFormData req of
                             Parsed v \<Rightarrow> if truthy v then v else JObj []
                           | _ \<Rightarrow> JObj []),
                        a_resume_path = resume\<rparr>]"
    and keep1: "shortlisted_candidates db1 = shortlisted_candidates db"
      "job_posts db1 = job_posts db" "job_application_forms db1 = job_application_forms db"
      "admin_users db1 = admin_users db"
    by simp_all
  from b have db2: "shortlisted_candidates db2 = shortlisted_candidates db1 @
                     [\<lparr>sc_id = next_shortlisted_id db1, sc_job_post_id = job,
                       sc_applicant_id = k, sc_full_name = fn, sc_email = em,
                       sc_phone = Some ph, sc_rating = 0, sc_status = ''New Application'',
                       sc_stage = ''Application Screening'', sc_note = None\<rparr>]"
    and keep2: "applicants db2 = applicants db1"
      "job_posts db2 = job_posts db1" "job_application_forms db2 = job_application_forms db1"
      "admin_users db2 = admin_users db1"
    by simp_all
  from a have "job \<in> j_id ` set (job_posts db)" by simp
  with db1 keep1 db2 keep2 show ?thesis
    by simp
qed

lemma post_applicants_cases:
  assumes "post_applicants fault unlink_ok uuid db files req = (status, db', files')"
  shows "(status = 500 \<and> (\<exists>now. db' = rollback db now) \<and>
            files' = unlink_upload unlink_ok (r_file req) files) \<or>
         (status = 400 \<and> db' = db \<and> files' = files \<and>
            (\<exists>fn em ph. extract_contact req = Inr (fn, em, ph) \<and>
               (r_job_id req = None \<or> fn = [] \<or> em = [] \<or> r_file req = None))) \<or>
         (status = 201 \<and> files' = files \<and>
            (\<exists>fn em ph job k f. extract_contact req = Inr (fn, em, ph) \<and> fn \<noteq> [] \<and> em \<noteq> [] \<and>
               r_job_id req = Some job \<and> r_file req = Some f \<and>
               submit_transaction fault uuid job req fn em ph
                 (Some (''/uploads/resumes/'' @ filename f)) db = Inr (k, db')))"
  using assms
  by (auto simp: post_applicants_def Let_def split: sum.splits option.splits if_splits prod.splits)


text \<open>
  When the submission is accepted, and when the engine gives up on the second insert.
\<close>

lemma post_applicants_accepts:
  assumes "extract_contact req = Inr (fn, em, ph)" and "fn \<noteq> []" and "em \<noteq> []"
    and "r_job_id req = Some job" and "job \<in> j_id ` set (job_posts db)"
    and "r_file req = Some f" and "uuid \<notin> a_uuid ` set (applicants db)"
    and "\<not> fault 1" and "\<not> fault 2"
  shows "fst (post_applicants fault unlink_ok uuid db files req) = 201"
  using assms
  by (simp add: post_applicants_def submit_transaction_def insert_applicant_def
      insert_shortlisted_candidate_def)

text \<open>
  C3. A submission that is answered 201 has added one row to \<open>applicants\<close> and one to
  \<open>shortlisted_candidates\<close>, the second for the first, with rating 0, status
  "New Application" and stage "Application Screening"; its request had a job id that
  resolves, a full name, an email and a resume. A submission that is answered anything
  else leaves the rows of every table as they were, whichever statement failed.
\<close>

theorem post_applicants_atomic:
  assumes "post_applicants fault unlink_ok uuid db files req = (status, db', files')"
  shows "(status = 201 \<longrightarrow>
            (\<exists>a sc fn em ph f.
               applicants db' = applicants db @ [a] \<and>
               shortlisted_candidates db' = shortlisted_candidates db @ [sc] \<and>
               r_job_id req = Some (a_job_id a) \<and> a_job_id a \<in> j_id ` set (job_posts db) \<and>
               r_file req = Some f \<and>
               a_resume_path a = Some (''/uploads/resumes/'' @ filename f) \<and>
               extract_contact req = Inr (fn, em, ph) \<and> fn \<noteq> [] \<and> em \<noteq> [] \<and>
               sc_applicant_id sc = a_id a \<and> sc_job_post_id sc = a_job_id a \<and>
               sc_full_name sc = fn \<and> sc_email sc = em \<and> sc_phone sc = Some ph \<and>
               sc_rating sc = 0 \<and> sc_status sc = ''New Application'' \<and>
               sc_stage sc = ''Application Screening'' \<and>
               job_posts db' = job_posts db \<and>
               job_application_forms db' = job_application_forms db \<and>
               admin_users db' = admin_users db)) \<and>
         (status \<noteq> 201 \<longrightarrow> same_rows db db')"
proof (intro conjI impI)
  assume "status = 201"
  with post_applicants_cases [OF assms] obtain fn em ph job k f where
    contact: "extract_contact req = Inr (fn, em, ph)" "fn \<noteq> []" "em \<noteq> []" and
    req: "r_job_id req = Some job" "r_file req = Some f" and
    tx: "submit_transaction fault uuid job req fn em ph
           (Some (''/uploads/resumes/'' @ filename f)) db = Inr (k, db')"
    by auto
  from submit_transaction_Inr [OF tx] obtain a sc where
    "applicants db' = applicants db @ [a]"
    "shortlisted_candidates db' = shortlisted_candidates db @ [sc]"
    "a_id a = k" "a_job_id a = job" "a_resume_path a = Some (''/uploads/resumes/'' @ filename f)"
    "job \<in> j_id ` set (job_posts db)"
    "sc_applicant_id sc = k" "sc_job_post_id sc = job"
    "sc_full_name sc = fn" "sc_email sc = em" "sc_phone sc = Some ph"
    "sc_rating sc = 0" "sc_status sc = ''New Application''"
    "sc_stage sc = ''Application Screening''"
    "job_posts db' = job_posts db"
    "job_application_forms db' = job_application_forms db"
    "admin_users db' = admin_users db"
    by blast
  with contact req show "\<exists>a sc fn em ph f.
               applicants db' = applicants db @ [a] \<and>
               shortlisted_candidates db' = shortlisted_candidates db @ [sc] \<and>
               r_job_id req = Some (a_job_id a) \<and> a_job_id a \<in> j_id ` set (job_posts db) \<and>
               r_file req = Some f \<and>
               a_resume_path a = Some (''/uploads/resumes/'' @ filename f) \<and>
               extract_contact req = Inr (fn, em, ph) \<and> fn \<noteq> [] \<and> em \<noteq> [] \<and>
               sc_applicant_id sc = a_id a \<and> sc_job_post_id sc = a_job_id a \<and>
               sc_full_name sc = fn \<and> sc_email sc = em \<and> sc_phone sc = Some ph \<and>
               sc_rating sc = 0 \<and> sc_status sc = ''New Application'' \<and>
               sc_stage sc = ''Application Screening'' \<and>
               job_posts db' = job_posts db \<and>
               job_application_forms db' = job_application_forms db \<and>
               admin_users db' = admin_users db"
    by (intro exI [of _ a] exI [of _ sc] exI [of _ fn] exI [of _ em] exI [of _ ph] exI [of _ f])
      simp
next
  assume "status \<noteq> 201"
  with post_applicants_cases [OF assms] show "same_rows db db'"
    by (auto simp: same_rows_rollback same_rows_refl)
qed

lemma extract_contact_complete:
  "extract_contact complete_request = Inr (''Jo'', ''jo@x.com'', [])"
  by (simp add: extract_contact_def complete_request_def is_full_name_def is_email_def
      is_phone_def)

lemma example_applicants_uuids:
  "map a_uuid (applicants example_database) = [''applicant-1'', ''applicant-2'']"
  by (simp add: example_database_def)

lemma example_shortlisted_status:
  "map sc_status (shortlisted_candidates example_database) = [''Shortlisted'', ''New Application'']"
  by (simp add: example_database_def)

lemma post_applicants_aborts:
  assumes "extract_contact req = Inr (fn, em, ph)" and "fn \<noteq> []" and "em \<noteq> []"
    and "r_job_id req = Some job" and "job \<in> j_id ` set (job_posts db)"
    and "r_file req = Some f" and "uuid \<notin> a_uuid ` set (applicants db)"
    and "\<not> fault 1" and "fault 2"
  shows "fst (post_applicants fault unlink_ok uuid db files req) = 500"
  using assms
  by (simp add: post_applicants_def submit_transaction_def insert_applicant_def)

theorem post_applicants_atomic_witness:
  "fst (post_applicants (\<lambda>k. False) True ''applicant-3'' example_database
          {path resume_upload} complete_request) = 201 \<and>
   length (applicants (fst (snd (post_applicants (\<lambda>k. False) True ''applicant-3''
          example_database {path resume_upload} complete_request)))) = 3 \<and>
   map sc_status (shortlisted_candidates (fst (snd (post_applicants (\<lambda>k. False) True
          ''applicant-3'' example_database {path resume_upload} complete_request))))
     = [''Shortlisted'', ''New Application'', ''New Application''] \<and>
   same_rows example_database
     (fst (snd (post_applicants (\<lambda>k. k = 2) True ''applicant-3'' example_database
          {path resume_upload} complete_request)))"
proof -
  define ok where "ok = post_applicants (\<lambda>k. False) True ''applicant-3'' example_database
          {path resume_upload} complete_request"
  define ko where "ko = post_applicants (\<lambda>k. k = 2) True ''applicant-3'' example_database
          {path resume_upload} complete_request"
  have job: "r_job_id complete_request = Some 1"
    and upload: "r_file complete_request = Some resume_upload"
    by (simp_all add: complete_request_def)
  have posting: "1 \<in> j_id ` set (job_posts example_database)"
    by (simp add: example_job_posts)
  have fresh: "''applicant-3'' \<notin> a_uuid ` set (applicants example_database)"
    using example_applicants_uuids by (simp flip: set_map)
  have accepted: "fst ok = 201"
    unfolding ok_def
    by (rule post_applicants_accepts [OF extract_contact_complete _ _ job posting upload fresh])
      simp_all
  have aborted: "fst ko = 500"
    unfolding ko_def
    by (rule post_applicants_aborts [OF extract_contact_complete _ _ job posting upload fresh])
      simp_all
  have run_ok: "post_applicants (\<lambda>k. False) True ''applicant-3'' example_database
          {path resume_upload} complete_request = (fst ok, fst (snd ok), snd (snd ok))"
    unfolding ok_def by simp
  have run_ko: "post_applicants (\<lambda>k. k = 2) True ''applicant-3'' example_database
          {path resume_upload} complete_request = (fst ko, fst (snd ko), snd (snd ko))"
    unfolding ko_def by simp
  from post_applicants_atomic [OF run_ok] accepted
  obtain a sc where "applicants (fst (snd ok)) = applicants example_database @ [a]"
    and "shortlisted_candidates (fst (snd ok)) = shortlisted_candidates example_database @ [sc]"
    and "sc_status sc = ''New Application''"
    by auto
  then have grown: "length (applicants (fst (snd ok))) = 3"
    "map sc_status (shortlisted_candidates (fst (snd ok)))
       = [''Shortlisted'', ''New Application'', ''New Application'']"
    using arg_cong [OF example_applicants_uuids, of length] example_shortlisted_status
    by simp_all
  from post_applicants_atomic [OF run_ko] aborted
  have "same_rows example_database (fst (snd ko))"
    by simp
  with accepted grown show ?thesis
    unfolding ok_def ko_def by simp
qed

text \<open>
  C4, as the code has it. A submission without a resume is answered 400, or 500 when one of
  the parses or scans throws; neither the database nor the files change.
\<close>

theorem post_applicants_without_resume:
  assumes "r_file req = None"
    and "post_applicants fault unlink_ok uuid db files req = (status, db', files')"
  shows "(status = 400 \<or> status = 500) \<and>
         (status = 500 \<longleftrightarrow> (\<exists>thrown. extract_contact req = Inl thrown)) \<and>
         db' = db \<and> files' = files"
  using assms
  by (auto simp: post_applicants_def rollback_same unlink_upload_def
      split: sum.splits option.splits if_splits)

theorem post_applicants_without_resume_witness:
  "r_file malformed_request = None \<and>
   extract_contact malformed_request = Inl SyntaxError \<and>
   post_applicants (\<lambda>k. False) True ''applicant-3'' example_database {} malformed_request
     = (500, example_database, {})"
proof -
  define run where "run = post_applicants (\<lambda>k. False) True ''applicant-3'' example_database {}
     malformed_request"
  have none: "r_file malformed_request = None"
    by (simp add: malformed_request_def)
  have thrown: "extract_contact malformed_request = Inl SyntaxError"
    by (simp add: extract_contact_def malformed_request_def)
  have "post_applicants (\<lambda>k. False) True ''applicant-3'' example_database {} malformed_request
          = (fst run, fst (snd run), snd (snd run))"
    unfolding run_def by simp
  from post_applicants_without_resume [OF none this] thrown
  have "fst run = 500" "fst (snd run) = example_database" "snd (snd run) = {}"
    by simp_all
  then have "run = (500, example_database, {})"
    by (metis prod.collapse)
  with none thrown show ?thesis
    unfolding run_def by simp
qed

text \<open>
  C4, as the specification has it, fails: a submission without a resume whose
  \<open>basicFormData\<close> is not JSON is answered 500, not 400.
\<close>

theorem post_applicants_without_resume_counterexample:
  "r_file malformed_request = None \<and>
   fst (post_applicants (\<lambda>k. False) True ''applicant-3'' example_database {} malformed_request)
     = 500"
  by (simp add: post_applicants_def extract_contact_def malformed_request_def)

text \<open>
  The upload is unlinked in the \<open>catch\<close> block only: an answer 400 leaves the files as
  they are, an answer 500 comes with the unlink and the rollback.
\<close>

lemma post_applicants_400_keeps_file:
  assumes "post_applicants fault unlink_ok uuid db files req = (400, db', files')"
  shows "files' = files"
  using post_applicants_cases [OF assms] by auto

lemma post_applicants_500_unlinks:
  assumes "post_applicants fault unlink_ok uuid db files req = (500, db', files')"
  shows "files' = unlink_upload unlink_ok (r_file req) files \<and> same_rows db db'"
  using post_applicants_cases [OF assms] by (auto simp: same_rows_rollback)

text \<open>
  C7 fails on the code. A submission with a resume and no email is answered 400, and the
  resume that \<open>multer\<close> has written is still on disk afterwards.
\<close>

theorem post_applicants_validation_keeps_upload:
  "r_file request_without_email = Some resume_upload \<and>
   post_applicants (\<lambda>k. False) True ''applicant-3'' example_database {path resume_upload}
       request_without_email
     = (400, example_database, {path resume_upload})"
  by (simp add: post_applicants_def extract_contact_def request_without_email_def
      is_full_name_def is_email_def is_phone_def)

section \<open>Properties of the stage update\<close>

text \<open>
  Both selects of the handler name \<open>full_name\<close>, which \<open>applicants\<close> does not have:
  they are rejected whatever the database holds.
\<close>

lemma select_applicant_rejected: "select_applicant db i = Inl (Unknown_column ''full_name'')"
  by (simp add: select_applicant_def check_columns_def applicants_columns_def)

lemma select_updated_rejected: "select_updated db i = Inl (Unknown_column ''full_name'')"
  by (simp add: select_updated_def check_columns_def applicants_columns_def)

text \<open>
  So the handler answers 500 when the applicant has no row (nothing is inserted), and 400
  or 500 when there is one (the update is written before the second select is rejected).
\<close>

lemma patch_stage_without_row:
  assumes "filter (\<lambda>r. sc_applicant_id r = i) (shortlisted_candidates db) = []"
  shows "patch_stage db i body = (500, db)"
  using assms by (simp add: patch_stage_def select_applicant_rejected)

lemma patch_stage_with_row:
  assumes "filter (\<lambda>r. sc_applicant_id r = i) (shortlisted_candidates db) \<noteq> []"
  shows "patch_stage db i body =
           (if updateFields body = [] then (400, db)
            else (500, snd (update_shortlisted_candidates (updateFields body) i db)))"
  using assms
  by (simp add: patch_stage_def apply_stage_update_def update_shortlisted_candidates_def
      select_updated_rejected)

lemma patch_stage_answer: "fst (patch_stage db i body) = 400 \<or> fst (patch_stage db i body) = 500"
  by (cases "filter (\<lambda>r. sc_applicant_id r = i) (shortlisted_candidates db) = []")
    (simp_all add: patch_stage_without_row patch_stage_with_row)

text \<open>What the assignments do to a row, and what the handler does to the table.\<close>

lemma fold_set_column:
  "fold set_column (updateFields body) r =
     r\<lparr>sc_stage := (case b_stageId body of None \<Rightarrow> sc_stage r | Some v \<Rightarrow> v),
       sc_status := (case b_status body of None \<Rightarrow> sc_status r | Some v \<Rightarrow> v),
       sc_note := (case b_note body of None \<Rightarrow> sc_note r | Some v \<Rightarrow> Some v)\<rparr>"
  by (cases "b_stageId body"; cases "b_status body"; cases "b_note body")
    (simp_all add: updateFields_def set_column_def)

lemma patch_stage_rows:
  "shortlisted_candidates (snd (patch_stage db i body)) =
     map (\<lambda>r. if sc_applicant_id r = i then fold set_column (updateFields body) r else r)
       (shortlisted_candidates db)"
proof (cases "filter (\<lambda>r. sc_applicant_id r = i) (shortlisted_candidates db) = []")
  case True
  then have "\<forall>r \<in> set (shortlisted_candidates db). sc_applicant_id r \<noteq> i"
    by (simp add: filter_empty_conv)
  then have "map (\<lambda>r. if sc_applicant_id r = i then fold set_column (updateFields body) r else r)
       (shortlisted_candidates db) = shortlisted_candidates db"
    by (simp add: map_idI)
  with True show ?thesis
    by (simp add: patch_stage_without_row)
next
  case False
  show ?thesis
  proof (cases "updateFields body = []")
    case True
    with False show ?thesis
      by (simp add: patch_stage_with_row map_idI)
  next
    case fields: False
    with False show ?thesis
      by (simp add: patch_stage_with_row update_shortlisted_candidates_def)
  qed
qed



lemma example_shortlisted_applicants:
  "map sc_applicant_id (shortlisted_candidates example_database) = [2, 2]"
  by (simp add: example_database_def)


text \<open>
  C1 fails on the code. Applicant 1 exists and has no row in \<open>shortlisted_candidates\<close>;
  the update \<open>{"status": "Shortlisted"}\<close> is answered 500 and the database is as it
  was: the select that should fetch the applicant is rejected for the column
  \<open>full_name\<close>.
\<close>

theorem patch_stage_lazy_insert_rejected:
  "1 \<in> a_id ` set (applicants example_database) \<and>
   filter (\<lambda>r. sc_applicant_id r = 1) (shortlisted_candidates example_database) = [] \<and>
   select_applicant example_database 1 = Inl (Unknown_column ''full_name'') \<and>
   patch_stage example_database 1 shortlist_body = (500, example_database)"
proof -
  have "1 \<in> a_id ` set (applicants example_database)"
    using example_applicants_ids by (simp flip: set_map)
  moreover have none: "filter (\<lambda>r. sc_applicant_id r = 1) (shortlisted_candidates example_database) = []"
    by (simp add: example_database_def)
  ultimately show ?thesis
    by (simp add: patch_stage_without_row select_applicant_rejected)
qed

text \<open>
  C2 fails on the code. There is no applicant 7, and the update \<open>{"status": "Hired"}\<close>
  for it is answered 500, not 404. Applicant 2 exists and has rows; the same update is
  written to them and answered 500 as well.
\<close>

theorem patch_stage_never_found_nor_ok:
  "7 \<notin> a_id ` set (applicants example_database) \<and>
   fst (patch_stage example_database 7 hire_body) = 500 \<and>
   2 \<in> a_id ` set (applicants example_database) \<and>
   fst (patch_stage example_database 2 hire_body) = 500 \<and>
   map sc_status (shortlisted_candidates (snd (patch_stage example_database 2 hire_body)))
     = [''Hired'', ''Hired'']"
proof -
  have ids: "7 \<notin> a_id ` set (applicants example_database)"
    "2 \<in> a_id ` set (applicants example_database)"
    using example_applicants_ids by (simp_all flip: set_map)
  have "filter (\<lambda>r. sc_applicant_id r = 7) (shortlisted_candidates example_database) = []"
    by (simp add: example_database_def)
  then have missing: "fst (patch_stage example_database 7 hire_body) = 500"
    by (simp add: patch_stage_without_row)
  have "filter (\<lambda>r. sc_applicant_id r = 2) (shortlisted_candidates example_database) \<noteq> []"
    by (simp add: example_database_def)
  then have present: "fst (patch_stage example_database 2 hire_body) = 500"
    by (simp add: patch_stage_with_row updateFields_def hire_body_def)
  have "map sc_status (shortlisted_candidates (snd (patch_stage example_database 2 hire_body)))
     = [''Hired'', ''Hired'']"
    by (simp add: patch_stage_rows fold_set_column hire_body_def example_database_def)
  with ids missing present show ?thesis by simp
qed

section \<open>Properties of the filtered views\<close>

text \<open>The rows of the join.\<close>

lemma joined_iff:
  "(sc, a, j) \<in> set (joined db) \<longleftrightarrow>
     sc \<in> set (shortlisted_candidates db) \<and>
     a \<in> set (applicants db) \<and> a_id a = sc_applicant_id sc \<and>
     j \<in> set (job_posts db) \<and> j_id j = sc_job_post_id sc"
  by (auto simp: joined_def)

text \<open>
  The lister of the shortlisted names \<open>steps_json\<close> and \<open>fields_json\<close>, which
  \<open>applicants\<close> does not have; the two others name \<open>resume_path\<close> only and
  return the rows of the join with their status.
\<close>

lemma applicants_shortlisted_rejected: "applicants_shortlisted db = (500, [])"
  by (simp add: applicants_shortlisted_def lister_def select_by_status_def check_columns_def
      applicants_columns_def)

lemma applicants_rejected_rows:
  "applicants_rejected db = (200, filter (\<lambda>(sc, a, j). sc_status sc = ''Rejected'') (joined db))"
  by (simp add: applicants_rejected_def lister_def select_by_status_def check_columns_def
      applicants_columns_def)

lemma applicants_hired_rows:
  "applicants_hired db = (200, filter (\<lambda>(sc, a, j). sc_status sc = ''Hired'') (joined db))"
  by (simp add: applicants_hired_def lister_def select_by_status_def check_columns_def
      applicants_columns_def)

text \<open>
  C5 fails on the code. The join of the example has one row with status "Shortlisted"
  (row 1, of applicant 2 and posting 1), and \<open>GET /applicants/shortlisted\<close> is answered
  500 with no rows.
\<close>

theorem applicants_shortlisted_always_500:
  "map (\<lambda>(sc, a, j). (sc_id sc, a_id a, j_id j))
       (filter (\<lambda>(sc, a, j). sc_status sc = ''Shortlisted'') (joined example_database))
     = [(1, 2, 1)] \<and>
   applicants_shortlisted example_database = (500, [])"
  by (simp add: applicants_shortlisted_rejected joined_def example_database_def)

end
